theory Spec2Isabelle
  imports Main
begin

section \<open>The MCP gateway of \<^verbatim>\<open>src/mcp-server/server.py\<close>\<close>

text \<open>
  The server has one real operation, \<^verbatim>\<open>call_mcp_tool\<close>: it starts one process with
  \<^verbatim>\<open>subprocess.run\<close>, looks at the return code, parses the standard output with
  \<^verbatim>\<open>json.loads\<close> and builds a \<^verbatim>\<open>MCPToolResponse\<close>; three \<^verbatim>\<open>except\<close> clauses turn
  exceptions into \<^verbatim>\<open>HTTPException\<close>s. The routes \<^verbatim>\<open>get_address_info\<close> and
  \<^verbatim>\<open>get_token_transfers\<close> build a request and call it.

  The embedding follows the Python text. What the Python takes from its libraries and
  from the operating system is a parameter of the model (the record \<open>env\<close>), so every
  theorem holds for every behaviour of those parts:
  \<^item> the outcome of \<^verbatim>\<open>subprocess.run\<close> (a completed process, or an exception);
  \<^item> \<^verbatim>\<open>json.dumps\<close> and \<^verbatim>\<open>json.loads\<close>;
  \<^item> the text of a pydantic validation error.
  \<^verbatim>\<open>json.dumps\<close> is a total function here: the arguments of a request are a
  \<^verbatim>\<open>Dict[str, Any]\<close> read from a JSON body, or a dict of strings built by a route, and
  \<^verbatim>\<open>json.dumps\<close> serialises every such value. Every other library call may raise.
  The calls of \<^verbatim>\<open>logger\<close> are left out: they return nothing the handler uses.
\<close>

subsection \<open>Python values\<close>

text \<open>
  What \<^verbatim>\<open>json.loads\<close> can return, and what a \<^verbatim>\<open>Dict[str, Any]\<close> of a request body
  holds: \<^verbatim>\<open>None\<close>, a bool, an int, a float, a str, a list or a dict. No operation of
  the server computes with a float, so a float is kept as its \<^verbatim>\<open>repr\<close> text. A dict is
  an association list in insertion order, as Python keeps it.
\<close>

datatype json =
    JNull
  | JBool bool
  | JInt int
  | JFloat string
  | JStr string
  | JArr "json list"
  | JObj "(string \<times> json) list"

type_synonym pydict = "(string \<times> json) list"

text \<open>\<^verbatim>\<open>isinstance(v, dict)\<close>.\<close>

fun is_object :: "json \<Rightarrow> bool" where
  "is_object (JObj d) = True"
| "is_object v = False"

text \<open>\<^verbatim>\<open>d[k] = v\<close>: an existing key keeps its place, a new key goes to the end.\<close>

fun dict_setitem :: "string \<Rightarrow> json \<Rightarrow> pydict \<Rightarrow> pydict" where
  "dict_setitem k v [] = [(k, v)]"
| "dict_setitem k v ((k', v') # d) =
     (if k' = k then (k, v) # d else (k', v') # dict_setitem k v d)"

text \<open>
  The truth value of an \<^verbatim>\<open>Optional[str]\<close>: \<^verbatim>\<open>None\<close> and the empty string are false.
\<close>

fun truthy :: "string option \<Rightarrow> bool" where
  "truthy None = False"
| "truthy (Some s) = (s \<noteq> [])"

text \<open>\<^verbatim>\<open>a or b\<close> on two strings.\<close>

definition str_or :: "string \<Rightarrow> string \<Rightarrow> string" where
  "str_or a b = (if a \<noteq> [] then a else b)"

subsection \<open>Exceptions\<close>

text \<open>
  The exceptions the \<^verbatim>\<open>try\<close> block of \<^verbatim>\<open>call_mcp_tool\<close> tells apart. \<open>ValidationError\<close>
  is what the constructor of a pydantic model raises; \<open>OtherException\<close> is any other
  exception (a process that cannot be started, an I/O error). The string is \<^verbatim>\<open>str(e)\<close>.
\<close>

datatype exn =
    TimeoutExpired
  | JSONDecodeError string
  | ValidationError string
  | OtherException string

subsection \<open>The request and response models (lines 33-42)\<close>

record MCPToolRequest =
  tool :: string
  arguments :: pydict

record MCPToolResponse =
  success :: bool
  data :: "pydict option"
  error :: "string option"

record HTTPException =
  status_code :: nat
  detail :: string

subsection \<open>The outside world\<close>

text \<open>
  One call of \<^verbatim>\<open>subprocess.run\<close>, with the keyword arguments the server passes
  (\<open>text_mode\<close> is the keyword \<^verbatim>\<open>text\<close>), and the \<^verbatim>\<open>CompletedProcess\<close> it returns.
\<close>

record run_call =
  args :: "string list"
  capture_output :: bool
  text_mode :: bool
  timeout :: "nat option"

record CompletedProcess =
  returncode :: int
  stdout :: string
  stderr :: string

record env =
  json_dumps :: "pydict \<Rightarrow> string"
  json_loads :: "string \<Rightarrow> exn + json"
  subprocess_run :: "run_call \<Rightarrow> exn + CompletedProcess"
  validation_str :: "json \<Rightarrow> string"

text \<open>The state the server changes: the processes it has started, oldest first.\<close>

record world =
  spawned :: "run_call list"

definition run :: "env \<Rightarrow> run_call \<Rightarrow> world \<Rightarrow> (exn + CompletedProcess) \<times> world" where
  "run e c w = (subprocess_run e c, w\<lparr>spawned := spawned w @ [c]\<rparr>)"

subsection \<open>Constructing a \<^verbatim>\<open>MCPToolResponse\<close>\<close>

text \<open>
  pydantic checks each field against its annotation when the model is constructed. The
  field \<^verbatim>\<open>data: Optional[Dict[str, Any]] = None\<close> takes \<^verbatim>\<open>None\<close> and a dict (the keys of
  a parsed JSON object are strings); any other value raises a validation error. The
  fields \<^verbatim>\<open>success\<close> and \<^verbatim>\<open>error\<close> are given a bool and a str (or nothing) by the
  server, which always pass.
\<close>

fun validate_data :: "env \<Rightarrow> json \<Rightarrow> exn + pydict option" where
  "validate_data e JNull = Inr None"
| "validate_data e (JObj d) = Inr (Some d)"
| "validate_data e v = Inl (ValidationError (validation_str e v))"

definition new_MCPToolResponse ::
  "env \<Rightarrow> bool \<Rightarrow> json \<Rightarrow> string option \<Rightarrow> exn + MCPToolResponse" where
  "new_MCPToolResponse e s d err =
     (case validate_data e d of
        Inl x \<Rightarrow> Inl x
      | Inr d' \<Rightarrow> Inr \<lparr>success = s, data = d', error = err\<rparr>)"

subsection \<open>The generic tool call (lines 67-122)\<close>

text \<open>The arguments of the call of \<^verbatim>\<open>subprocess.run\<close> (lines 88-97).\<close>

definition mcp_run_call :: "env \<Rightarrow> MCPToolRequest \<Rightarrow> run_call" where
  "mcp_run_call e request =
     \<lparr>args = [''python'', ''-m'', ''blockscout_mcp_server'',
              ''--tool'', tool request,
              ''--args'', json_dumps e (arguments request)],
      capture_output = True,
      text_mode = True,
      timeout = Some 30\<rparr>"

text \<open>The body of the \<^verbatim>\<open>try\<close> block: an exception is the value \<open>Inl\<close>.\<close>

definition call_mcp_tool_try ::
  "env \<Rightarrow> MCPToolRequest \<Rightarrow> world \<Rightarrow> (exn + MCPToolResponse) \<times> world" where
  "call_mcp_tool_try e request w =
     (let (result, w') = run e (mcp_run_call e request) w
      in (case result of
            Inl x \<Rightarrow> Inl x
          | Inr r \<Rightarrow>
              if returncode r \<noteq> 0
              then new_MCPToolResponse e False JNull (Some (str_or (stderr r) ''Unknown error''))
              else (case json_loads e (stdout r) of
                      Inl x \<Rightarrow> Inl x
                    | Inr output_data \<Rightarrow> new_MCPToolResponse e True output_data None),
          w'))"

text \<open>The three \<^verbatim>\<open>except\<close> clauses, in the order of the source.\<close>

fun except :: "exn \<Rightarrow> HTTPException" where
  "except TimeoutExpired = \<lparr>status_code = 504, detail = ''Request timed out''\<rparr>"
| "except (JSONDecodeError m) = \<lparr>status_code = 500, detail = ''Invalid response from MCP server''\<rparr>"
| "except (ValidationError m) = \<lparr>status_code = 500, detail = m\<rparr>"
| "except (OtherException m) = \<lparr>status_code = 500, detail = m\<rparr>"

definition call_mcp_tool ::
  "env \<Rightarrow> MCPToolRequest \<Rightarrow> world \<Rightarrow> (HTTPException + MCPToolResponse) \<times> world" where
  "call_mcp_tool e request w =
     (let (result, w') = call_mcp_tool_try e request w
      in (case result of Inl x \<Rightarrow> Inl (except x) | Inr response \<Rightarrow> Inr response, w'))"

text \<open>
  The status FastAPI answers with: the code of a raised \<^verbatim>\<open>HTTPException\<close>, and 200 for
  a handler that returns (the routes declare no other status).
\<close>

fun http_status :: "HTTPException + MCPToolResponse \<Rightarrow> nat" where
  "http_status (Inl x) = status_code x"
| "http_status (Inr response) = 200"

subsection \<open>The convenience routes (lines 124-176)\<close>

definition get_address_info ::
  "env \<Rightarrow> string \<Rightarrow> string \<Rightarrow> world \<Rightarrow> (HTTPException + MCPToolResponse) \<times> world" where
  "get_address_info e chain_id address w =
     call_mcp_tool e \<lparr>tool = ''get_address_info'',
                      arguments = [(''chain_id'', JStr chain_id), (''address'', JStr address)]\<rparr> w"

text \<open>\<^verbatim>\<open>if x: arguments[k] = x\<close>, for an \<^verbatim>\<open>Optional[str]\<close> parameter \<^verbatim>\<open>x\<close>.\<close>

fun setitem_if :: "string \<Rightarrow> string option \<Rightarrow> pydict \<Rightarrow> pydict" where
  "setitem_if k None d = d"
| "setitem_if k (Some s) d = (if truthy (Some s) then dict_setitem k (JStr s) d else d)"

text \<open>The dict built by lines 160-171.\<close>

definition token_transfers_arguments ::
  "string \<Rightarrow> string option \<Rightarrow> string option \<Rightarrow> string option \<Rightarrow> string option \<Rightarrow>
   string option \<Rightarrow> pydict" where
  "token_transfers_arguments chain_id address age_from age_to token cursor =
     (let arguments = [(''chain_id'', JStr chain_id)];
          arguments = setitem_if ''address'' address arguments;
          arguments = setitem_if ''age_from'' age_from arguments;
          arguments = setitem_if ''age_to'' age_to arguments;
          arguments = setitem_if ''token'' token arguments;
          arguments = setitem_if ''cursor'' cursor arguments
      in arguments)"

definition get_token_transfers ::
  "env \<Rightarrow> string \<Rightarrow> string option \<Rightarrow> string option \<Rightarrow> string option \<Rightarrow> string option \<Rightarrow>
   string option \<Rightarrow> world \<Rightarrow> (HTTPException + MCPToolResponse) \<times> world" where
  "get_token_transfers e chain_id address age_from age_to token cursor w =
     call_mcp_tool e
       \<lparr>tool = ''get_token_transfers'',
        arguments = token_transfers_arguments chain_id address age_from age_to token cursor\<rparr> w"

subsection \<open>Sample runs\<close>

text \<open>
  Concrete values for the parameters, used to run the model on the examples of the
  specification. \<open>sample_loads\<close> gives the value of \<^verbatim>\<open>json.loads\<close> on the three JSON
  texts the examples print (\<^verbatim>\<open>null\<close>, \<^verbatim>\<open>{"x":1}\<close> and \<^verbatim>\<open>[1]\<close>) and the
  \<^verbatim>\<open>JSONDecodeError\<close> it raises on \<^verbatim>\<open>not-json\<close>; it is applied to no other text.
  \<open>sample_dumps\<close> gives \<^verbatim>\<open>json.dumps({"chain_id": "1"})\<close>, the only dict it is evaluated
  on. The message of the validation error is the one pydantic prints for a value that
  is not a dict.
\<close>

definition sample_loads :: "string \<Rightarrow> exn + json" where
  "sample_loads s =
     (if s = ''null'' then Inr JNull
      else if s = ''{\"x\":1}'' then Inr (JObj [(''x'', JInt 1)])
      else if s = ''[1]'' then Inr (JArr [JInt 1])
      else Inl (JSONDecodeError ''Expecting value: line 1 column 1 (char 0)''))"

definition sample_dumps :: "pydict \<Rightarrow> string" where
  "sample_dumps d =
     (if d = [(''chain_id'', JStr ''1'')] then ''{\"chain_id\": \"1\"}'' else ''{}'')"

text \<open>An environment in which every started process ends with the given outcome.\<close>

definition sample_env :: "(exn + CompletedProcess) \<Rightarrow> env" where
  "sample_env outcome =
     \<lparr>json_dumps = sample_dumps,
      json_loads = sample_loads,
      subprocess_run = (\<lambda>c. outcome),
      validation_str = (\<lambda>v. ''Input should be a valid dictionary'')\<rparr>"

definition exited :: "int \<Rightarrow> string \<Rightarrow> string \<Rightarrow> exn + CompletedProcess" where
  "exited rc out err = Inr \<lparr>returncode = rc, stdout = out, stderr = err\<rparr>"

definition sample_request :: MCPToolRequest where
  "sample_request = \<lparr>tool = ''get_address_info'', arguments = [(''chain_id'', JStr ''1'')]\<rparr>"

definition no_process :: world where
  "no_process = \<lparr>spawned = []\<rparr>"

section \<open>Properties\<close>

subsection \<open>What one call returns and what it changes\<close>

text \<open>
  The result of \<open>call_mcp_tool\<close> as one case distinction on the outcome of the process,
  and its effect on the world. The claims below are read off these two facts.
\<close>

lemma call_mcp_tool_result:
  "fst (call_mcp_tool e request w) =
     (case subprocess_run e (mcp_run_call e request) of
        Inl x \<Rightarrow> Inl (except x)
      | Inr r \<Rightarrow>
          if returncode r \<noteq> 0
          then Inr \<lparr>success = False, data = None,
                    error = Some (str_or (stderr r) ''Unknown error'')\<rparr>
          else (case json_loads e (stdout r) of
                  Inl x \<Rightarrow> Inl (except x)
                | Inr v \<Rightarrow>
                    (case validate_data e v of
                       Inl x \<Rightarrow> Inl (except x)
                     | Inr d \<Rightarrow> Inr \<lparr>success = True, data = d, error = None\<rparr>)))"
  by (simp add: call_mcp_tool_def call_mcp_tool_try_def run_def new_MCPToolResponse_def
      split: sum.splits prod.splits)

lemma call_mcp_tool_world:
  "snd (call_mcp_tool e request w) = w\<lparr>spawned := spawned w @ [mcp_run_call e request]\<rparr>"
  by (simp add: call_mcp_tool_def call_mcp_tool_try_def run_def split: prod.splits)

lemma validate_data_Inr:
  "validate_data e v = Inr d \<longleftrightarrow> (v = JNull \<and> d = None) \<or> (v = JObj (the d) \<and> d \<noteq> None)"
  by (cases v) auto

subsection \<open>A non-zero return code\<close>

text \<open>
  C2. When the process exits with a non-zero return code, the call returns the response
  with \<open>success\<close> false, no data, and \<open>error\<close> the text of the standard error, or the
  fixed text \<^verbatim>\<open>Unknown error\<close> when the standard error is empty; the handler returns,
  so the HTTP status is 200.
\<close>

theorem nonzero_exit_error_response:
  assumes "subprocess_run e (mcp_run_call e request) = Inr r"
    and "returncode r \<noteq> 0"
  shows "fst (call_mcp_tool e request w) =
           Inr \<lparr>success = False, data = None,
                error = Some (if stderr r = [] then ''Unknown error'' else stderr r)\<rparr>
         \<and> http_status (fst (call_mcp_tool e request w)) = 200"
  using assms by (simp add: call_mcp_tool_result str_or_def)

text \<open>
  The example of the specification: exit code 1 with standard error \<^verbatim>\<open>boom\<close>; and exit
  code 2 with an empty standard error.
\<close>

theorem nonzero_exit_error_response_witness:
  "fst (call_mcp_tool (sample_env (exited 1 [] ''boom'')) sample_request no_process) =
     Inr \<lparr>success = False, data = None, error = Some ''boom''\<rparr>
   \<and> http_status
        (fst (call_mcp_tool (sample_env (exited 1 [] ''boom'')) sample_request no_process)) = 200
   \<and> fst (call_mcp_tool (sample_env (exited 2 [] [])) sample_request no_process) =
       Inr \<lparr>success = False, data = None, error = Some ''Unknown error''\<rparr>"
  using nonzero_exit_error_response
          [of "sample_env (exited 1 [] ''boom'')" sample_request
              "\<lparr>returncode = 1, stdout = [], stderr = ''boom''\<rparr>" no_process]
        nonzero_exit_error_response
          [of "sample_env (exited 2 [] [])" sample_request
              "\<lparr>returncode = 2, stdout = [], stderr = []\<rparr>" no_process]
  by (simp add: sample_env_def exited_def)

text \<open>
  C9. The return code is tested before the output is parsed: with a non-zero return
  code the response is built from the standard error alone, whatever the standard
  output holds and whatever \<^verbatim>\<open>json.loads\<close> would make of it.
\<close>

theorem nonzero_exit_never_parses_stdout:
  assumes "subprocess_run e (mcp_run_call e request) =
             Inr \<lparr>returncode = rc, stdout = out, stderr = err\<rparr>"
    and "rc \<noteq> 0"
  shows "fst (call_mcp_tool (e\<lparr>json_loads := loads\<rparr>) request w) =
           Inr \<lparr>success = False, data = None,
                error = Some (if err = [] then ''Unknown error'' else err)\<rparr>"
  using assms by (simp add: call_mcp_tool_result str_or_def mcp_run_call_def)

text \<open>Exit code 1 with the valid JSON text \<^verbatim>\<open>{"x":1}\<close> on the standard output.\<close>

theorem nonzero_exit_never_parses_stdout_witness:
  "sample_loads ''{\"x\":1}'' = Inr (JObj [(''x'', JInt 1)])
   \<and> fst (call_mcp_tool (sample_env (exited 1 ''{\"x\":1}'' ''boom'')) sample_request no_process) =
       Inr \<lparr>success = False, data = None, error = Some ''boom''\<rparr>"
  using nonzero_exit_never_parses_stdout
          [of "sample_env (exited 1 ''{\"x\":1}'' ''boom'')" sample_request 1 "''{\"x\":1}''"
              "''boom''" sample_loads no_process]
  by (simp add: sample_env_def exited_def sample_loads_def)

subsection \<open>Return code 0\<close>

text \<open>
  C3, as the claim states it, fails: the text \<^verbatim>\<open>[1]\<close> is valid JSON, the process exits
  with code 0, and the call raises an HTTP error with status 500 instead of returning a
  response, because a list is no value of the field \<^verbatim>\<open>data\<close>.
\<close>

theorem valid_json_success_counterexample:
  "subprocess_run (sample_env (exited 0 ''[1]'' []))
       (mcp_run_call (sample_env (exited 0 ''[1]'' [])) sample_request) =
     Inr \<lparr>returncode = 0, stdout = ''[1]'', stderr = []\<rparr>
   \<and> json_loads (sample_env (exited 0 ''[1]'' [])) ''[1]'' = Inr (JArr [JInt 1])
   \<and> fst (call_mcp_tool (sample_env (exited 0 ''[1]'' [])) sample_request no_process) =
       Inl \<lparr>status_code = 500, detail = ''Input should be a valid dictionary''\<rparr>"
  by (simp add: call_mcp_tool_result sample_env_def exited_def sample_loads_def)

text \<open>
  C3, amended. When the process exits with code 0 and its standard output parses as a
  JSON object, the call returns the response with \<open>success\<close> true and \<open>data\<close> the
  parsed object; when it parses as \<^verbatim>\<open>null\<close>, the response has \<open>success\<close> true and no
  data. The status is 200.
\<close>

theorem json_object_success_response:
  assumes "subprocess_run e (mcp_run_call e request) = Inr r"
    and "returncode r = 0"
    and "json_loads e (stdout r) = Inr v"
  shows "(v = JObj d \<longrightarrow>
            fst (call_mcp_tool e request w) = Inr \<lparr>success = True, data = Some d, error = None\<rparr>
            \<and> http_status (fst (call_mcp_tool e request w)) = 200)
         \<and> (v = JNull \<longrightarrow>
            fst (call_mcp_tool e request w) = Inr \<lparr>success = True, data = None, error = None\<rparr>
            \<and> http_status (fst (call_mcp_tool e request w)) = 200)"
  using assms by (simp add: call_mcp_tool_result)

text \<open>The example of the specification, \<^verbatim>\<open>{"x":1}\<close>, and the output \<^verbatim>\<open>null\<close>.\<close>

theorem json_object_success_response_witness:
  "fst (call_mcp_tool (sample_env (exited 0 ''{\"x\":1}'' [])) sample_request no_process) =
     Inr \<lparr>success = True, data = Some [(''x'', JInt 1)], error = None\<rparr>
   \<and> http_status
        (fst (call_mcp_tool (sample_env (exited 0 ''{\"x\":1}'' [])) sample_request no_process)) = 200
   \<and> fst (call_mcp_tool (sample_env (exited 0 ''null'' [])) sample_request no_process) =
       Inr \<lparr>success = True, data = None, error = None\<rparr>"
  using json_object_success_response
          [of "sample_env (exited 0 ''{\"x\":1}'' [])" sample_request
              "\<lparr>returncode = 0, stdout = ''{\"x\":1}'', stderr = []\<rparr>"
              "JObj [(''x'', JInt 1)]" "[(''x'', JInt 1)]" no_process]
        json_object_success_response
          [of "sample_env (exited 0 ''null'' [])" sample_request
              "\<lparr>returncode = 0, stdout = ''null'', stderr = []\<rparr>"
              JNull "[]" no_process]
  by (simp add: sample_env_def exited_def sample_loads_def)

text \<open>
  C6. When the process exits with code 0 and \<^verbatim>\<open>json.loads\<close> raises \<^verbatim>\<open>JSONDecodeError\<close>
  on its standard output, the call raises the HTTP error with status 500 and the detail
  \<^verbatim>\<open>Invalid response from MCP server\<close>; no response is returned.
\<close>

theorem malformed_stdout_is_http_500:
  assumes "subprocess_run e (mcp_run_call e request) = Inr r"
    and "returncode r = 0"
    and "json_loads e (stdout r) = Inl (JSONDecodeError m)"
  shows "fst (call_mcp_tool e request w) =
           Inl \<lparr>status_code = 500, detail = ''Invalid response from MCP server''\<rparr>
         \<and> http_status (fst (call_mcp_tool e request w)) = 500"
  using assms by (simp add: call_mcp_tool_result)

text \<open>The example of the specification: the output \<^verbatim>\<open>not-json\<close> with exit code 0.\<close>

theorem malformed_stdout_is_http_500_witness:
  "sample_loads ''not-json'' = Inl (JSONDecodeError ''Expecting value: line 1 column 1 (char 0)'')
   \<and> fst (call_mcp_tool (sample_env (exited 0 ''not-json'' [])) sample_request no_process) =
       Inl \<lparr>status_code = 500, detail = ''Invalid response from MCP server''\<rparr>
   \<and> http_status
        (fst (call_mcp_tool (sample_env (exited 0 ''not-json'' [])) sample_request no_process)) = 500"
  using malformed_stdout_is_http_500
          [of "sample_env (exited 0 ''not-json'' [])" sample_request
              "\<lparr>returncode = 0, stdout = ''not-json'', stderr = []\<rparr>"
              "''Expecting value: line 1 column 1 (char 0)''" no_process]
  by (simp add: sample_env_def exited_def sample_loads_def)

text \<open>
  C10, as the claim states it, fails: \<^verbatim>\<open>null\<close> is valid JSON and not a JSON object,
  and \<^verbatim>\<open>None\<close> is a value of the field \<^verbatim>\<open>data: Optional[Dict[str, Any]]\<close>, so the call
  returns a response with \<open>success\<close> true.
\<close>

theorem non_object_json_counterexample:
  "subprocess_run (sample_env (exited 0 ''null'' []))
       (mcp_run_call (sample_env (exited 0 ''null'' [])) sample_request) =
     Inr \<lparr>returncode = 0, stdout = ''null'', stderr = []\<rparr>
   \<and> json_loads (sample_env (exited 0 ''null'' [])) ''null'' = Inr JNull
   \<and> \<not> is_object JNull
   \<and> fst (call_mcp_tool (sample_env (exited 0 ''null'' [])) sample_request no_process) =
       Inr \<lparr>success = True, data = None, error = None\<rparr>
   \<and> http_status
        (fst (call_mcp_tool (sample_env (exited 0 ''null'' [])) sample_request no_process)) = 200"
  by (simp add: call_mcp_tool_result sample_env_def exited_def sample_loads_def)

text \<open>
  C10, amended. When the process exits with code 0 and its standard output parses as
  valid JSON that is neither an object nor \<^verbatim>\<open>null\<close>, no response is returned:
  constructing the response raises a validation error, which the last \<^verbatim>\<open>except\<close>
  clause turns into the HTTP error with status 500 and the error's text as detail.
\<close>

theorem non_object_json_is_http_500:
  assumes "subprocess_run e (mcp_run_call e request) = Inr r"
    and "returncode r = 0"
    and "json_loads e (stdout r) = Inr v"
    and "\<not> is_object v"
    and "v \<noteq> JNull"
  shows "fst (call_mcp_tool e request w) = Inl \<lparr>status_code = 500, detail = validation_str e v\<rparr>
         \<and> http_status (fst (call_mcp_tool e request w)) = 500"
  using assms by (cases v) (simp_all add: call_mcp_tool_result)

text \<open>The output \<^verbatim>\<open>[1]\<close>, a JSON list.\<close>

theorem non_object_json_is_http_500_witness:
  "\<not> is_object (JArr [JInt 1])
   \<and> fst (call_mcp_tool (sample_env (exited 0 ''[1]'' [])) sample_request no_process) =
       Inl \<lparr>status_code = 500, detail = ''Input should be a valid dictionary''\<rparr>
   \<and> http_status
        (fst (call_mcp_tool (sample_env (exited 0 ''[1]'' [])) sample_request no_process)) = 500"
  using non_object_json_is_http_500
          [of "sample_env (exited 0 ''[1]'' [])" sample_request
              "\<lparr>returncode = 0, stdout = ''[1]'', stderr = []\<rparr>"
              "JArr [JInt 1]" no_process]
  by (simp add: sample_env_def exited_def sample_loads_def)

subsection \<open>The timeout\<close>

text \<open>
  C4. The process is run with a timeout of 30 seconds; when \<^verbatim>\<open>subprocess.run\<close> raises
  \<^verbatim>\<open>TimeoutExpired\<close>, the call raises the HTTP error with status 504 and returns no
  response.
\<close>

theorem timeout_is_http_504:
  assumes "subprocess_run e (mcp_run_call e request) = Inl TimeoutExpired"
  shows "timeout (mcp_run_call e request) = Some 30
         \<and> fst (call_mcp_tool e request w) =
             Inl \<lparr>status_code = 504, detail = ''Request timed out''\<rparr>
         \<and> http_status (fst (call_mcp_tool e request w)) = 504"
  using assms by (simp add: call_mcp_tool_result mcp_run_call_def)

theorem timeout_is_http_504_witness:
  "fst (call_mcp_tool (sample_env (Inl TimeoutExpired)) sample_request no_process) =
     Inl \<lparr>status_code = 504, detail = ''Request timed out''\<rparr>
   \<and> http_status
        (fst (call_mcp_tool (sample_env (Inl TimeoutExpired)) sample_request no_process)) = 504"
  using timeout_is_http_504 [of "sample_env (Inl TimeoutExpired)" sample_request no_process]
  by (simp add: sample_env_def)

subsection \<open>The process that is started\<close>

text \<open>
  C8. Every call starts exactly one process: \<^verbatim>\<open>subprocess.run\<close> is called once, with the
  argument vector \<^verbatim>\<open>python -m blockscout_mcp_server --tool <tool> --args <json>\<close>, where
  \<^verbatim>\<open><json>\<close> is \<^verbatim>\<open>json.dumps\<close> of the request's arguments, with the output captured
  as text and a timeout of 30 seconds.
\<close>

theorem one_process_per_call:
  "spawned (snd (call_mcp_tool e request w)) =
     spawned w @
       [\<lparr>args = [''python'', ''-m'', ''blockscout_mcp_server'',
                 ''--tool'', tool request,
                 ''--args'', json_dumps e (arguments request)],
         capture_output = True,
         text_mode = True,
         timeout = Some 30\<rparr>]"
  by (simp add: call_mcp_tool_world mcp_run_call_def)

theorem one_process_per_call_witness:
  "spawned (snd (call_mcp_tool (sample_env (exited 0 ''{\"x\":1}'' [])) sample_request no_process)) =
     [\<lparr>args = [''python'', ''-m'', ''blockscout_mcp_server'',
               ''--tool'', ''get_address_info'',
               ''--args'', ''{\"chain_id\": \"1\"}''],
       capture_output = True,
       text_mode = True,
       timeout = Some 30\<rparr>]"
  using one_process_per_call [of "sample_env (exited 0 ''{\"x\":1}'' [])" sample_request no_process]
  by (simp add: sample_env_def sample_request_def sample_dumps_def no_process_def)

subsection \<open>The fields of a response\<close>

text \<open>
  C1, as the claim states it, fails: when the process exits with code 0 and prints
  \<^verbatim>\<open>null\<close>, the response has \<open>success\<close> true and neither data nor an error.
\<close>

theorem exactly_one_field_counterexample:
  "fst (call_mcp_tool (sample_env (exited 0 ''null'' [])) sample_request no_process) =
     Inr \<lparr>success = True, data = None, error = None\<rparr>
   \<and> success \<lparr>success = True, data = None, error = None\<rparr>
   \<and> data \<lparr>success = True, data = None, error = None\<rparr> = None
   \<and> error \<lparr>success = True, data = None, error = None\<rparr> = None"
  by (simp add: call_mcp_tool_result sample_env_def exited_def sample_loads_def)

text \<open>
  C1, amended. In every response the call returns, \<open>error\<close> is present iff \<open>success\<close>
  is false, and \<open>data\<close> is present only if \<open>success\<close> is true (so the two are never
  both present); when \<open>success\<close> is true \<open>data\<close> is present, unless the process exited
  with code 0 and its standard output parsed as \<^verbatim>\<open>null\<close>, and then neither is present.
\<close>

theorem response_data_error_fields:
  assumes "fst (call_mcp_tool e request w) = Inr response"
  shows "(error response \<noteq> None \<longleftrightarrow> \<not> success response)
         \<and> (data response \<noteq> None \<longrightarrow> success response)
         \<and> (success response \<and> data response = None \<longrightarrow>
              (\<exists>r. subprocess_run e (mcp_run_call e request) = Inr r \<and> returncode r = 0
                   \<and> json_loads e (stdout r) = Inr JNull))"
  using assms
  by (auto simp add: call_mcp_tool_result validate_data_Inr split: sum.splits if_splits)

theorem response_data_error_fields_witness:
  "fst (call_mcp_tool (sample_env (exited 1 [] ''boom'')) sample_request no_process) =
     Inr \<lparr>success = False, data = None, error = Some ''boom''\<rparr>
   \<and> fst (call_mcp_tool (sample_env (exited 0 ''{\"x\":1}'' [])) sample_request no_process) =
     Inr \<lparr>success = True, data = Some [(''x'', JInt 1)], error = None\<rparr>"
  using response_data_error_fields
          [of "sample_env (exited 1 [] ''boom'')" sample_request no_process
              "\<lparr>success = False, data = None, error = Some ''boom''\<rparr>"]
        response_data_error_fields
          [of "sample_env (exited 0 ''{\"x\":1}'' [])" sample_request no_process
              "\<lparr>success = True, data = Some [(''x'', JInt 1)], error = None\<rparr>"]
  by (simp add: call_mcp_tool_result sample_env_def exited_def sample_loads_def str_or_def)

subsection \<open>The arguments of the token-transfers route\<close>

text \<open>Assigning to a key of a dict: the lookup, the keys in their order, the values.\<close>

lemma map_of_dict_setitem: "map_of (dict_setitem k v d) = (map_of d)(k \<mapsto> v)"
  by (induction d) (auto simp: fun_eq_iff)

lemma map_fst_dict_setitem:
  "map fst (dict_setitem k v d) = (if k \<in> fst ` set d then map fst d else map fst d @ [k])"
  by (induction d) (auto simp: rev_image_eqI)

lemma keys_dict_setitem: "fst ` set (dict_setitem k v d) = insert k (fst ` set d)"
proof -
  have "fst ` set (dict_setitem k v d) = set (map fst (dict_setitem k v d))"
    by simp
  also have "\<dots> = insert k (fst ` set d)"
    unfolding map_fst_dict_setitem by auto
  finally show ?thesis .
qed

lemma set_dict_setitem: "set (dict_setitem k v d) \<subseteq> insert (k, v) (set d)"
  by (induction d) (auto split: if_splits)

lemma values_dict_setitem: "snd ` set (dict_setitem k v d) \<subseteq> insert v (snd ` set d)"
  using set_dict_setitem [of k v d] by force

lemma distinct_dict_setitem:
  "distinct (map fst d) \<Longrightarrow> distinct (map fst (dict_setitem k v d))"
  unfolding map_fst_dict_setitem by simp

text \<open>The conditional assignment \<open>setitem_if\<close>.\<close>

lemma setitem_if_not_truthy: "\<not> truthy x \<Longrightarrow> setitem_if k x d = d"
  by (cases x) simp_all

lemma setitem_if_truthy: "truthy x \<Longrightarrow> setitem_if k x d = dict_setitem k (JStr (the x)) d"
  by (cases x) simp_all

lemma map_of_setitem_if:
  "map_of (setitem_if k x d) = (if truthy x then (map_of d)(k \<mapsto> JStr (the x)) else map_of d)"
  by (simp add: setitem_if_truthy setitem_if_not_truthy map_of_dict_setitem)

lemma keys_setitem_if: "fst ` set (setitem_if k x d) \<subseteq> insert k (fst ` set d)"
  by (cases "truthy x") (auto simp: setitem_if_truthy setitem_if_not_truthy keys_dict_setitem)

lemma distinct_setitem_if:
  "distinct (map fst d) \<Longrightarrow> distinct (map fst (setitem_if k x d))"
  by (cases "truthy x") (simp_all add: setitem_if_truthy setitem_if_not_truthy distinct_dict_setitem)

lemma no_null_setitem_if:
  "JNull \<notin> snd ` set d \<Longrightarrow> JNull \<notin> snd ` set (setitem_if k x d)"
  using values_dict_setitem [of k "JStr (the x)" d]
  by (cases "truthy x") (auto simp: setitem_if_truthy setitem_if_not_truthy)

text \<open>The dict of the route, key by key.\<close>

lemma token_transfers_arguments_lookup:
  "map_of (token_transfers_arguments chain_id address age_from age_to token cursor) =
     (\<lambda>k. if k = ''cursor'' \<and> truthy cursor then Some (JStr (the cursor))
          else if k = ''token'' \<and> truthy token then Some (JStr (the token))
          else if k = ''age_to'' \<and> truthy age_to then Some (JStr (the age_to))
          else if k = ''age_from'' \<and> truthy age_from then Some (JStr (the age_from))
          else if k = ''address'' \<and> truthy address then Some (JStr (the address))
          else if k = ''chain_id'' then Some (JStr chain_id)
          else None)"
  by (simp add: token_transfers_arguments_def map_of_setitem_if fun_eq_iff)

lemma token_transfers_arguments_keys:
  "fst ` set (token_transfers_arguments chain_id address age_from age_to token cursor)
     \<subseteq> {''chain_id'', ''address'', ''age_from'', ''age_to'', ''token'', ''cursor''}"
proof -
  let ?d0 = "[(''chain_id'', JStr chain_id)]"
  let ?d1 = "setitem_if ''address'' address ?d0"
  let ?d2 = "setitem_if ''age_from'' age_from ?d1"
  let ?d3 = "setitem_if ''age_to'' age_to ?d2"
  let ?d4 = "setitem_if ''token'' token ?d3"
  let ?d5 = "setitem_if ''cursor'' cursor ?d4"
  have "fst ` set ?d1 \<subseteq> {''chain_id'', ''address''}"
    using keys_setitem_if [of "''address''" address ?d0] by auto
  then have "fst ` set ?d2 \<subseteq> {''chain_id'', ''address'', ''age_from''}"
    using keys_setitem_if [of "''age_from''" age_from ?d1] by blast
  then have "fst ` set ?d3 \<subseteq> {''chain_id'', ''address'', ''age_from'', ''age_to''}"
    using keys_setitem_if [of "''age_to''" age_to ?d2] by blast
  then have "fst ` set ?d4 \<subseteq> {''chain_id'', ''address'', ''age_from'', ''age_to'', ''token''}"
    using keys_setitem_if [of "''token''" token ?d3] by blast
  then have "fst ` set ?d5 \<subseteq>
      {''chain_id'', ''address'', ''age_from'', ''age_to'', ''token'', ''cursor''}"
    using keys_setitem_if [of "''cursor''" cursor ?d4] by blast
  then show ?thesis by (simp add: token_transfers_arguments_def)
qed

lemma token_transfers_arguments_distinct:
  "distinct (map fst (token_transfers_arguments chain_id address age_from age_to token cursor))"
  by (simp add: token_transfers_arguments_def distinct_setitem_if)

lemma token_transfers_arguments_no_null:
  "JNull \<notin> snd ` set (token_transfers_arguments chain_id address age_from age_to token cursor)"
  by (simp add: token_transfers_arguments_def no_null_setitem_if)

lemma token_transfers_arguments_only_chain_id:
  "\<not> truthy address \<Longrightarrow> \<not> truthy age_from \<Longrightarrow> \<not> truthy age_to \<Longrightarrow> \<not> truthy token \<Longrightarrow>
   \<not> truthy cursor \<Longrightarrow>
   token_transfers_arguments chain_id address age_from age_to token cursor =
     [(''chain_id'', JStr chain_id)]"
  by (simp add: token_transfers_arguments_def setitem_if_not_truthy)

text \<open>
  C7. The route passes to \<open>call_mcp_tool\<close> the tool name \<^verbatim>\<open>get_token_transfers\<close> and a
  dict that holds \<^verbatim>\<open>chain_id\<close> always and each of \<^verbatim>\<open>address\<close>, \<^verbatim>\<open>age_from\<close>,
  \<^verbatim>\<open>age_to\<close>, \<^verbatim>\<open>token\<close>, \<^verbatim>\<open>cursor\<close> exactly when the parameter is given and not
  empty, with the parameter's string as value. The dict has no other key, no key twice
  and no \<^verbatim>\<open>null\<close> value; with no optional parameter given it is the dict of the one
  key \<^verbatim>\<open>chain_id\<close>. It is this dict that is serialised for the process.
\<close>

theorem token_transfers_forwards_supplied_fields:
  "(let A = token_transfers_arguments chain_id address age_from age_to token cursor in
      get_token_transfers e chain_id address age_from age_to token cursor w =
        call_mcp_tool e \<lparr>tool = ''get_token_transfers'', arguments = A\<rparr> w
      \<and> spawned (snd (get_token_transfers e chain_id address age_from age_to token cursor w)) =
          spawned w @ [mcp_run_call e \<lparr>tool = ''get_token_transfers'', arguments = A\<rparr>]
      \<and> map_of A ''chain_id'' = Some (JStr chain_id)
      \<and> map_of A ''address'' = (if truthy address then Some (JStr (the address)) else None)
      \<and> map_of A ''age_from'' = (if truthy age_from then Some (JStr (the age_from)) else None)
      \<and> map_of A ''age_to'' = (if truthy age_to then Some (JStr (the age_to)) else None)
      \<and> map_of A ''token'' = (if truthy token then Some (JStr (the token)) else None)
      \<and> map_of A ''cursor'' = (if truthy cursor then Some (JStr (the cursor)) else None)
      \<and> fst ` set A \<subseteq> {''chain_id'', ''address'', ''age_from'', ''age_to'', ''token'', ''cursor''}
      \<and> distinct (map fst A)
      \<and> JNull \<notin> snd ` set A
      \<and> (\<not> truthy address \<and> \<not> truthy age_from \<and> \<not> truthy age_to \<and> \<not> truthy token
           \<and> \<not> truthy cursor \<longrightarrow> A = [(''chain_id'', JStr chain_id)]))"
proof -
  let ?A = "token_transfers_arguments chain_id address age_from age_to token cursor"
  have forwarded:
    "get_token_transfers e chain_id address age_from age_to token cursor w =
       call_mcp_tool e \<lparr>tool = ''get_token_transfers'', arguments = ?A\<rparr> w"
    by (simp add: get_token_transfers_def)
  have started:
    "spawned (snd (get_token_transfers e chain_id address age_from age_to token cursor w)) =
       spawned w @ [mcp_run_call e \<lparr>tool = ''get_token_transfers'', arguments = ?A\<rparr>]"
    by (simp add: forwarded call_mcp_tool_world)
  have lookups:
    "map_of ?A ''chain_id'' = Some (JStr chain_id)"
    "map_of ?A ''address'' = (if truthy address then Some (JStr (the address)) else None)"
    "map_of ?A ''age_from'' = (if truthy age_from then Some (JStr (the age_from)) else None)"
    "map_of ?A ''age_to'' = (if truthy age_to then Some (JStr (the age_to)) else None)"
    "map_of ?A ''token'' = (if truthy token then Some (JStr (the token)) else None)"
    "map_of ?A ''cursor'' = (if truthy cursor then Some (JStr (the cursor)) else None)"
    by (simp_all add: token_transfers_arguments_lookup)
  have only: "\<not> truthy address \<and> \<not> truthy age_from \<and> \<not> truthy age_to \<and> \<not> truthy token
      \<and> \<not> truthy cursor \<longrightarrow> ?A = [(''chain_id'', JStr chain_id)]"
    by (simp add: token_transfers_arguments_only_chain_id)
  show ?thesis
    unfolding Let_def
    using forwarded started lookups
      token_transfers_arguments_keys [of chain_id address age_from age_to token cursor]
      token_transfers_arguments_distinct [of chain_id address age_from age_to token cursor]
      token_transfers_arguments_no_null [of chain_id address age_from age_to token cursor] only
    by blast
qed

text \<open>
  Only \<^verbatim>\<open>chain_id\<close> given: the dict has exactly that key. And \<^verbatim>\<open>address\<close> given with an
  empty \<^verbatim>\<open>age_from\<close>: the dict has \<^verbatim>\<open>address\<close> and no \<^verbatim>\<open>age_from\<close>.
\<close>

theorem token_transfers_forwards_supplied_fields_witness:
  "token_transfers_arguments ''1'' None None None None None = [(''chain_id'', JStr ''1'')]
   \<and> spawned (snd (get_token_transfers (sample_env (exited 0 ''{\"x\":1}'' [])) ''1''
                     None None None None None no_process)) =
       [\<lparr>args = [''python'', ''-m'', ''blockscout_mcp_server'',
                 ''--tool'', ''get_token_transfers'',
                 ''--args'', ''{\"chain_id\": \"1\"}''],
         capture_output = True,
         text_mode = True,
         timeout = Some 30\<rparr>]
   \<and> map_of (token_transfers_arguments ''1'' (Some ''0xabc'') (Some []) None None None) ''address''
       = Some (JStr ''0xabc'')
   \<and> map_of (token_transfers_arguments ''1'' (Some ''0xabc'') (Some []) None None None) ''age_from''
       = None"
proof -
  let ?e = "sample_env (exited 0 ''{\"x\":1}'' [])"
  note only_chain_id =
    token_transfers_forwards_supplied_fields
      [of "''1''" None None None None None ?e no_process, unfolded Let_def]
  note with_address =
    token_transfers_forwards_supplied_fields
      [of "''1''" "Some ''0xabc''" "Some []" None None None ?e no_process, unfolded Let_def]
  from only_chain_id
  have dict: "token_transfers_arguments ''1'' None None None None None = [(''chain_id'', JStr ''1'')]"
    by simp
  from only_chain_id
  have "spawned (snd (get_token_transfers ?e ''1'' None None None None None no_process)) =
          spawned no_process @
            [mcp_run_call ?e
               \<lparr>tool = ''get_token_transfers'',
                arguments = token_transfers_arguments ''1'' None None None None None\<rparr>]"
    by blast
  then have started:
    "spawned (snd (get_token_transfers ?e ''1'' None None None None None no_process)) =
       [\<lparr>args = [''python'', ''-m'', ''blockscout_mcp_server'',
                 ''--tool'', ''get_token_transfers'',
                 ''--args'', ''{\"chain_id\": \"1\"}''],
         capture_output = True,
         text_mode = True,
         timeout = Some 30\<rparr>]"
    by (simp add: dict mcp_run_call_def sample_env_def sample_dumps_def no_process_def)
  from with_address
  have address:
    "map_of (token_transfers_arguments ''1'' (Some ''0xabc'') (Some []) None None None) ''address''
       = Some (JStr ''0xabc'')"
    by simp
  from with_address
  have age_from:
    "map_of (token_transfers_arguments ''1'' (Some ''0xabc'') (Some []) None None None) ''age_from''
       = None"
    by simp
  from dict started address age_from show ?thesis
    by blast
qed

end
